theory Spec2Isabelle
  imports Complex_Main
begin

section \<open>Conventions\<close>

text \<open>
  The development embeds the media preprocessing pipeline (\<^verbatim>\<open>app/utils.py\<close>), the
  confidence computation and the progress rescaling of the engine adapter
  (\<^verbatim>\<open>app/whisper_service.py\<close>) and the job record (\<^verbatim>\<open>app/job_manager.py\<close>).

  Python floats are idealised as real numbers, Python strings and byte strings
  as \<open>string\<close>, \<open>Optional[T]\<close> as \<open>T option\<close>. An exception is a value of type
  \<open>exc\<close>; a call that may raise returns \<open>exc + 'a\<close>, with \<open>Inl\<close> for the exception.
\<close>

subsection \<open>Python truthiness and string helpers\<close>

definition truthy :: "string option \<Rightarrow> bool" where
  \<comment> \<open>\<^verbatim>\<open>if s:\<close> for an optional string: neither \<^verbatim>\<open>None\<close> nor empty.\<close>
  "truthy s = (case s of None \<Rightarrow> False | Some t \<Rightarrow> t \<noteq> [])"

definition py_or :: "string option \<Rightarrow> string \<Rightarrow> string" where
  \<comment> \<open>\<^verbatim>\<open>a or b\<close> where \<open>a\<close> is an optional string and \<open>b\<close> a string.\<close>
  "py_or a b = (case a of None \<Rightarrow> b | Some t \<Rightarrow> if t \<noteq> [] then t else b)"


definition contains :: "string \<Rightarrow> string \<Rightarrow> bool" where
  \<comment> \<open>\<^verbatim>\<open>sub in s\<close> on strings.\<close>
  "contains sub s = list_ex (\<lambda>t. take (length sub) t = sub) (map (\<lambda>i. drop i s) [0..<Suc (length s)])"

definition startswith :: "string \<Rightarrow> string \<Rightarrow> bool" where
  "startswith s p = (take (length p) s = p)"

definition slice :: "string \<Rightarrow> nat \<Rightarrow> nat \<Rightarrow> string" where
  \<comment> \<open>\<^verbatim>\<open>s[i:j]\<close> for \<open>0 \<le> i \<le> j\<close>.\<close>
  "slice s i j = take (j - i) (drop i s)"

definition lower_char :: "char \<Rightarrow> char" where
  "lower_char c =
     (case map_of (zip ''ABCDEFGHIJKLMNOPQRSTUVWXYZ'' ''abcdefghijklmnopqrstuvwxyz'') c of
        None \<Rightarrow> c | Some d \<Rightarrow> d)"

definition upper_char :: "char \<Rightarrow> char" where
  "upper_char c =
     (case map_of (zip ''abcdefghijklmnopqrstuvwxyz'' ''ABCDEFGHIJKLMNOPQRSTUVWXYZ'') c of
        None \<Rightarrow> c | Some d \<Rightarrow> d)"

definition lower :: "string \<Rightarrow> string" where
  "lower s = map lower_char s"

definition upper :: "string \<Rightarrow> string" where
  "upper s = map upper_char s"

definition lstrip_chars :: "string \<Rightarrow> string \<Rightarrow> string" where
  \<comment> \<open>\<^verbatim>\<open>s.lstrip(chars)\<close>\<close>
  "lstrip_chars chars s = dropWhile (\<lambda>c. c \<in> set chars) s"

definition rstrip_chars :: "string \<Rightarrow> string \<Rightarrow> string" where
  "rstrip_chars chars s = rev (dropWhile (\<lambda>c. c \<in> set chars) (rev s))"

definition digit_char :: "nat \<Rightarrow> char" where
  "digit_char d = ''0123456789'' ! d"

fun str_nat :: "nat \<Rightarrow> string" where
  \<comment> \<open>\<^verbatim>\<open>str(n)\<close> for a non-negative integer.\<close>
  "str_nat n = (if n < 10 then [digit_char n] else str_nat (n div 10) @ [digit_char (n mod 10)])"

declare str_nat.simps [simp del]

subsection \<open>Paths (pathlib, os.path)\<close>

fun split_slash :: "string \<Rightarrow> string list" where
  "split_slash [] = [[]]"
| "split_slash (c # cs) =
     (if c = CHR ''/'' then [] # split_slash cs
      else (case split_slash cs of [] \<Rightarrow> [[c]] | p # ps \<Rightarrow> (c # p) # ps))"

definition path_name :: "string \<Rightarrow> string" where
  \<comment> \<open>\<^verbatim>\<open>Path(p).name\<close>: the last component, empty and \<^verbatim>\<open>.\<close> components dropped.\<close>
  "path_name p =
     (case filter (\<lambda>part. part \<noteq> [] \<and> part \<noteq> ''.'') (split_slash p) of
        [] \<Rightarrow> []
      | parts \<Rightarrow> last parts)"

definition path_suffix :: "string \<Rightarrow> string" where
  \<comment> \<open>\<^verbatim>\<open>Path(p).suffix\<close>: \<^verbatim>\<open>i = name.rfind('.')\<close>, and \<^verbatim>\<open>name[i:]\<close> when
      \<^verbatim>\<open>0 < i < len(name) - 1\<close>, else the empty string.\<close>
  "path_suffix p =
     (let name = path_name p;
          after = rev (takeWhile (\<lambda>c. c \<noteq> CHR ''.'') (rev name))
      in if CHR ''.'' \<in> set name \<and> after \<noteq> [] \<and> Suc (length after) < length name
         then CHR ''.'' # after else [])"

definition get_file_extension :: "string \<Rightarrow> string" where
  "get_file_extension filename = lstrip_chars ''.'' (lower (path_suffix filename))"

definition path_join :: "string \<Rightarrow> string \<Rightarrow> string" where
  \<comment> \<open>\<^verbatim>\<open>os.path.join(a, b)\<close> on POSIX.\<close>
  "path_join a b =
     (if startswith b ''/'' then b
      else if a = [] \<or> last a = CHR ''/'' then a @ b
      else a @ ''/'' @ b)"

definition dirname :: "string \<Rightarrow> string" where
  \<comment> \<open>\<^verbatim>\<open>os.path.dirname(p)\<close> on POSIX.\<close>
  "dirname p =
     (let head = rev (dropWhile (\<lambda>c. c \<noteq> CHR ''/'') (rev p))
      in if head \<noteq> [] \<and> head \<noteq> replicate (length head) CHR ''/''
         then rstrip_chars ''/'' head else head)"

section \<open>Exceptions, the host and the configuration\<close>

text \<open>
  Modelled from the spec: the exception classes of \<^verbatim>\<open>app/exceptions.py\<close>, which is
  not among the sources. The spec (section 7) names the classes and says that an
  \<^verbatim>\<open>AudioProcessingError\<close> ``carries a step name and truncated diagnostic''. A
  constructor below records the keyword arguments that a call site under
  \<^verbatim>\<open>app/\<close> hands to the class: \<open>AudioProcessingError message original_error
  processing_step\<close>, \<open>FileSystemError message operation file_path original_error\<close>,
  \<open>InvalidAudioFormat file_format supported_formats\<close>, \<open>FileTooLarge file_size
  max_size\<close>, \<open>TranscriptionFailed message original_error file_path\<close>. Where a call
  site hands over \<^verbatim>\<open>str(e)\<close> of a caught exception \<open>e\<close>, the argument is recorded as
  \<open>Str e\<close>. How much of \<open>original_error\<close> the class keeps, and how it renders an
  exception as a string, is the business of the absent class:
  this theory's theorems for the claims speak of the class of an error and of its
  step name, and of the arguments handed over only at explicit inputs.
\<close>

datatype exc =
    AudioProcessingError string detail string
  | FileSystemError string "string option" "string option" "detail option"
  | InvalidAudioFormat string "string list"
  | FileTooLarge nat int
  | TimeoutExpired
  | FileNotFoundError
  | TranscriptionFailed string detail string
  | ValueError string
  | OSError string
  | Exception string
and detail = Text string | Str exc

text \<open>The \<^verbatim>\<open>CompletedProcess\<close> that \<^verbatim>\<open>subprocess.run\<close> returns.\<close>

record completed =
  returncode :: int
  stdout :: string
  stderr :: string

text \<open>
  What a run leaves behind for an observer: the progress callbacks it made, the
  external commands it started, the calls of a transcoder entry point (its step
  name and input path) and the decode attempts (\<^verbatim>\<open>librosa.load\<close>).
\<close>

datatype event =
    Progress real string
  | Subprocess "string list"
  | Convert string string
  | Decode string

text \<open>
  The world: the scratch storage (a path to its file's bytes), the trace of
  events so far, and the number of identifiers drawn from \<^verbatim>\<open>uuid.uuid4\<close>.
\<close>

record world =
  fs :: "string \<Rightarrow> string option"
  trace :: "event list"
  uuids :: nat

text \<open>
  The host: what the external tools and libraries answer. A library call answers
  \<open>Inl msg\<close> when it raises an exception whose text is \<open>msg\<close>. \<open>librosa_load\<close> takes
  the number of the decode attempt within the run (0 or 1) and the path, and answers
  the sample rate; the waveform itself is not modelled.
\<close>

record host =
  subprocess_run :: "string list \<Rightarrow> exc + completed"
  ffmpeg_output :: "string list \<Rightarrow> string option"
  json_format_name :: "string \<Rightarrow> exc + string"
  uuid4 :: "nat \<Rightarrow> string"
  makedirs :: "string \<Rightarrow> exc option"
  open_rb :: "string \<Rightarrow> exc option"
  remove_error :: "string \<Rightarrow> exc option"
  librosa_get_duration :: "string \<Rightarrow> string + real"
  librosa_get_samplerate :: "string \<Rightarrow> string + nat"
  librosa_load :: "nat \<Rightarrow> string \<Rightarrow> string + nat"
  librosa_resample :: "string option"
  librosa_normalize :: "string option"
  sf_write :: "string \<Rightarrow> string + string"

text \<open>The tunables of \<^verbatim>\<open>app/config.py\<close> that the modelled code reads.\<close>

record settings =
  supported_formats :: "string list"
  formats_requiring_conversion :: "string list"
  max_file_size_bytes :: int
  target_sample_rate :: nat
  audio_channels :: nat
  upload_dir :: string
  ffprobe_timeout_seconds :: nat
  ffmpeg_conversion_timeout_seconds :: nat
  preprocessing_progress_max :: real
  transcription_progress_min :: real
  transcription_progress_max :: real

type_synonym 'a io = "world \<Rightarrow> (exc + 'a) \<times> world"

type_synonym callback = "real \<Rightarrow> string \<Rightarrow> world \<Rightarrow> world"

definition ret :: "'a \<Rightarrow> 'a io" where
  "ret x w = (Inr x, w)"

definition raise :: "exc \<Rightarrow> 'a io" where
  "raise e w = (Inl e, w)"

definition and_then :: "'a io \<Rightarrow> ('a \<Rightarrow> 'b io) \<Rightarrow> 'b io" where
  \<comment> \<open>Sequencing: an exception of the first part skips the second.\<close>
  "and_then m f w = (case m w of (Inl e, w1) \<Rightarrow> (Inl e, w1) | (Inr x, w1) \<Rightarrow> f x w1)"

definition try_except :: "'a io \<Rightarrow> (exc \<Rightarrow> 'a io) \<Rightarrow> 'a io" where
  \<comment> \<open>\<^verbatim>\<open>try: m  except Exception as e: handler e\<close>\<close>
  "try_except m handler w = (case m w of (Inl e, w1) \<Rightarrow> handler e w1 | (Inr x, w1) \<Rightarrow> (Inr x, w1))"

definition effect :: "(world \<Rightarrow> world) \<Rightarrow> unit io" where
  "effect f w = (Inr (), f w)"

definition lib :: "string + 'a \<Rightarrow> 'a io" where
  \<comment> \<open>A library call: its answer, or its exception.\<close>
  "lib r w = (case r of Inl msg \<Rightarrow> (Inl (Exception msg), w) | Inr x \<Rightarrow> (Inr x, w))"

definition lib_unit :: "string option \<Rightarrow> unit io" where
  "lib_unit r w = (case r of Some msg \<Rightarrow> (Inl (Exception msg), w) | None \<Rightarrow> (Inr (), w))"

definition log_event :: "event \<Rightarrow> world \<Rightarrow> world" where
  "log_event ev w = w\<lparr>trace := trace w @ [ev]\<rparr>"

definition emit :: callback where
  \<comment> \<open>The observer's progress callback: it records the pair it is given.\<close>
  "emit p m w = log_event (Progress p m) w"

definition call_back :: "callback option \<Rightarrow> real \<Rightarrow> string \<Rightarrow> world \<Rightarrow> world" where
  \<comment> \<open>\<^verbatim>\<open>if progress_callback: progress_callback(p, m)\<close>; a callback does not raise.\<close>
  "call_back cb p m w = (case cb of None \<Rightarrow> w | Some f \<Rightarrow> f p m w)"

definition path_exists :: "world \<Rightarrow> string \<Rightarrow> bool" where
  "path_exists w p = (case fs w p of None \<Rightarrow> False | Some c \<Rightarrow> True)"

definition getsize :: "string \<Rightarrow> nat io" where
  "getsize p w = (case fs w p of None \<Rightarrow> (Inl FileNotFoundError, w) | Some c \<Rightarrow> (Inr (length c), w))"

definition run_probe :: "host \<Rightarrow> string list \<Rightarrow> completed io" where
  \<comment> \<open>\<^verbatim>\<open>subprocess.run\<close> of a probe command: it writes no file.\<close>
  "run_probe h cmd w = (subprocess_run h cmd, log_event (Subprocess cmd) w)"

definition run_ffmpeg :: "host \<Rightarrow> string list \<Rightarrow> completed io" where
  \<comment> \<open>\<^verbatim>\<open>subprocess.run\<close> of a conversion command: the command may leave bytes at
      its output path, the last argument.\<close>
  "run_ffmpeg h cmd w =
     (subprocess_run h cmd,
      (log_event (Subprocess cmd) w)
        \<lparr>fs := (case ffmpeg_output h cmd of None \<Rightarrow> fs w | Some c \<Rightarrow> (fs w)(last cmd \<mapsto> c))\<rparr>)"

section \<open>Format sniffing and integrity probing (utils.py)\<close>

definition validate_file_format :: "settings \<Rightarrow> string \<Rightarrow> bool" where
  "validate_file_format s filename = (get_file_extension filename \<in> set (supported_formats s))"

definition validate_file_size :: "settings \<Rightarrow> int \<Rightarrow> bool" where
  "validate_file_size s file_size = (file_size \<le> max_file_size_bytes s)"

definition probe_format_tag :: "string \<Rightarrow> string \<Rightarrow> string option" where
  \<comment> \<open>The mapping of ffprobe's format name to a tag; \<open>None\<close> when no branch returns.\<close>
  "probe_format_tag format_name file_path =
     (if contains ''m4a'' format_name \<or> contains ''mp4'' format_name then
        (let ext = get_file_extension file_path in
         if ext = ''m4a'' then Some ''m4a''
         else if ext \<in> set [''mp4'', ''mov'', ''m4v''] then Some ext
         else if contains ''audio'' (lower format_name) \<or> contains ''aac'' (lower format_name)
         then Some ''m4a''
         else Some ''mp4'')
      else if contains ''matroska'' format_name then
        (let ext = get_file_extension file_path in
         Some (if ext \<in> set [''mkv'', ''webm''] then ext else ''mkv''))
      else if contains ''avi'' format_name then Some ''avi''
      else if contains ''flv'' format_name then Some ''flv''
      else if contains ''wmv'' format_name then Some ''wmv''
      else if contains ''3gp'' format_name then Some ''3gp''
      else None)"

definition detect_cmd :: "string \<Rightarrow> string list" where
  "detect_cmd file_path =
     [''ffprobe'', ''-v'', ''quiet'', ''-print_format'', ''json'', ''-show_format'', file_path]"

definition detect_probe :: "host \<Rightarrow> string \<Rightarrow> (string option) io" where
  \<comment> \<open>The inner \<^verbatim>\<open>try\<close>: every exception in it is passed over.\<close>
  "detect_probe h file_path =
     try_except
       (and_then
          (run_probe h (detect_cmd file_path))
          (\<lambda>result.
             if returncode result = 0 then
               and_then (\<lambda>w. (json_format_name h (stdout result), w))
                 (\<lambda>format_name. ret (probe_format_tag (lower format_name) file_path))
             else ret None))
       (\<lambda>e. ret None)"

definition read_header :: "host \<Rightarrow> string \<Rightarrow> string io" where
  \<comment> \<open>\<^verbatim>\<open>with open(file_path, 'rb') as f: header = f.read(16)\<close>\<close>
  "read_header h file_path w =
     (case open_rb h file_path of
        Some e \<Rightarrow> (Inl e, w)
      | None \<Rightarrow> (case fs w file_path of
                   None \<Rightarrow> (Inl FileNotFoundError, w)
                 | Some c \<Rightarrow> (Inr (take 16 c), w)))"

definition signature_tag :: "string \<Rightarrow> string \<Rightarrow> exc + string option" where
  \<comment> \<open>The chain of magic-byte tests; \<open>Inr None\<close> when no branch returns. In the
      \<^verbatim>\<open>ftyp\<close> branch the source calls \<^verbatim>\<open>f.seek(0)\<close> on the file that the
      \<^verbatim>\<open>with\<close> block has closed, which raises \<^verbatim>\<open>ValueError\<close>.\<close>
  "signature_tag header file_path =
     (if startswith header ''ID3'' \<or> slice header 1 4 = ''ID3'' then Inr (Some ''mp3'')
      else if startswith header ''RIFF'' \<and> slice header 8 12 = ''WAVE'' then Inr (Some ''wav'')
      else if startswith header ''OggS'' then Inr (Some ''ogg'')
      else if startswith header ''fLaC'' then Inr (Some ''flac'')
      else if slice header 4 8 = ''ftyp'' then Inl (ValueError ''seek of closed file'')
      else if startswith header [CHR 0x30, CHR 0x26, CHR 0xB2, CHR 0x75] then Inr (Some ''wma'')
      else if startswith header ''RIFF'' \<and> slice header 8 12 = ''AVI '' then Inr (Some ''avi'')
      else if startswith header [CHR 0x1A, CHR 0x45, CHR 0xDF, CHR 0xA3] then
        (let ext = get_file_extension file_path in
         if ext \<in> set [''mkv'', ''webm''] then Inr (Some ext) else Inr None)
      else if startswith header ''FLV'' then Inr (Some ''flv'')
      else if startswith header
                [CHR 0x30, CHR 0x26, CHR 0xB2, CHR 0x75, CHR 0x8E, CHR 0x66, CHR 0xCF, CHR 0x11]
      then Inr (Some ''wmv'')
      else if startswith header [CHR 0xFF, CHR 0xF1] \<or> startswith header [CHR 0xFF, CHR 0xF9]
      then Inr (Some ''aac'')
      else Inr None)"

definition detect_body :: "host \<Rightarrow> string \<Rightarrow> (string option) io" where
  \<comment> \<open>The second \<^verbatim>\<open>try\<close> block: the probe, then the signature, then the extension.\<close>
  "detect_body h file_path =
     and_then (detect_probe h file_path)
       (\<lambda>probed. case probed of
          Some tag \<Rightarrow> ret (Some tag)
        | None \<Rightarrow>
            and_then (read_header h file_path)
              (\<lambda>header. case signature_tag header file_path of
                 Inl e \<Rightarrow> raise e
               | Inr (Some tag) \<Rightarrow> ret (Some tag)
               | Inr None \<Rightarrow> ret (Some (get_file_extension file_path))))"

definition detect_audio_format :: "host \<Rightarrow> string \<Rightarrow> (string option) io" where
  "detect_audio_format h file_path w =
     (case try_except
             (\<lambda>w. if \<not> path_exists w file_path then (Inr False, w)
                   else and_then (getsize file_path) (\<lambda>file_size. ret (file_size \<noteq> 0)) w)
             (\<lambda>e. ret False) w of
        (Inl e, w1) \<Rightarrow> (Inl e, w1)
      | (Inr False, w1) \<Rightarrow> (Inr None, w1)
      | (Inr True, w1) \<Rightarrow>
          try_except (detect_body h file_path)
            (\<lambda>e. ret (Some (get_file_extension file_path))) w1)"

definition probe_cmd :: "string \<Rightarrow> string list" where
  \<comment> \<open>The probe that requires an audio stream.\<close>
  "probe_cmd file_path =
     [''ffprobe'', ''-v'', ''error'', ''-select_streams'', ''a:0'',
      ''-show_entries'', ''stream=codec_type'', ''-of'', ''json'', file_path]"

definition probe_cmd_video :: "string \<Rightarrow> string list" where
  \<comment> \<open>The probe that accepts any readable container.\<close>
  "probe_cmd_video file_path =
     [''ffprobe'', ''-v'', ''error'', ''-show_format'', ''-of'', ''json'', file_path]"

definition validate_audio_file_integrity ::
  "host \<Rightarrow> settings \<Rightarrow> string \<Rightarrow> (bool \<times> string option) io" where
  "validate_audio_file_integrity h s file_path =
     try_except
       (and_then
          (run_probe h (probe_cmd file_path))
          (\<lambda>result.
             and_then
               (if returncode result \<noteq> 0 then
                  and_then
                    (run_probe h (probe_cmd_video file_path))
                    (\<lambda>result_video.
                       if returncode result_video \<noteq> 0 then
                         ret (Some (False,
                                Some (''File validation failed: '' @ take 200 (stderr result_video))))
                       else ret None)
                else ret None)
               (\<lambda>early. case early of
                  Some answer \<Rightarrow> ret answer
                | None \<Rightarrow>
                    (\<lambda>w. case librosa_get_duration h file_path of
                       Inl msg \<Rightarrow>
                         (Inr (False, Some (''File cannot be read as audio: '' @ take 200 msg)), w)
                     | Inr d \<Rightarrow> (Inr (True, None), w)))))
       (\<lambda>e. case e of
          TimeoutExpired \<Rightarrow> ret (False, Some ''File validation timed out'')
        | FileNotFoundError \<Rightarrow> ret (True, None)
        | _ \<Rightarrow> ret (True, None))"

section \<open>Scratch files, audio information and the transcoder (utils.py)\<close>

definition create_temp_file :: "host \<Rightarrow> settings \<Rightarrow> string option \<Rightarrow> (string \<times> string) io" where
  \<comment> \<open>Names a scratch file; the file itself is not created.\<close>
  "create_temp_file h s suffix w =
     (let unique_id = uuid4 h (uuids w);
          w1 = w\<lparr>uuids := Suc (uuids w)\<rparr>;
          filename = (if truthy suffix then ''whisperrr_'' @ unique_id @ ''.'' @ the suffix
                      else ''whisperrr_'' @ unique_id);
          file_path = path_join (upload_dir s) filename
      in case makedirs h (dirname file_path) of
           Some e \<Rightarrow>
             (Inl (FileSystemError ''Failed to create temporary file'' (Some ''create_temp_file'')
                     None (Some (Str e))), w1)
         | None \<Rightarrow> (Inr (file_path, filename), w1))"

definition cleanup_temp_file :: "host \<Rightarrow> string \<Rightarrow> unit io" where
  "cleanup_temp_file h file_path =
     try_except
       (\<lambda>w. if path_exists w file_path then
               (case remove_error h file_path of
                  Some e \<Rightarrow> (Inl e, w)
                | None \<Rightarrow> (Inr (), w\<lparr>fs := (fs w)(file_path := None)\<rparr>))
             else (Inr (), w))
       (\<lambda>e. ret ())"

text \<open>
  The dictionary of \<^verbatim>\<open>get_audio_info\<close>, without \<^verbatim>\<open>file_size_mb\<close>, which is
  \<^verbatim>\<open>file_size\<close> in another unit.
\<close>

record audio_info =
  info_duration :: real
  info_sample_rate :: nat
  info_file_size :: nat

definition get_audio_info :: "host \<Rightarrow> string \<Rightarrow> audio_info io" where
  "get_audio_info h file_path =
     try_except
       (and_then (lib (librosa_get_duration h file_path)) (\<lambda>d.
        and_then (lib (librosa_get_samplerate h file_path)) (\<lambda>sr.
        and_then (getsize file_path) (\<lambda>file_size.
        ret \<lparr>info_duration = d, info_sample_rate = sr, info_file_size = file_size\<rparr>))))
       (\<lambda>e. raise (AudioProcessingError ''Failed to get audio information'' (Str e)
                     ''get_audio_info''))"

text \<open>
  \<^verbatim>\<open>convert_audio_file\<close> and \<^verbatim>\<open>convert_video_to_audio\<close> are the same code up to
  their captions, messages and step name, collected here.
\<close>

record texts =
  step_name :: string
  caption_start :: string
  caption_extract :: string
  caption_process :: string
  caption_finalize :: string
  caption_done :: string
  message_failed :: string
  message_timeout :: string

definition audio_texts :: texts where
  "audio_texts =
     \<lparr>step_name = ''convert_audio_file'',
      caption_start = ''Starting audio file conversion...'',
      caption_extract = ''Extracting audio stream...'',
      caption_process = ''Processing audio conversion...'',
      caption_finalize = ''Finalizing converted audio...'',
      caption_done = ''Audio conversion completed'',
      message_failed = ''Failed to convert audio file'',
      message_timeout = ''Audio conversion timed out (exceeded ''\<rparr>"

definition video_texts :: texts where
  "video_texts =
     \<lparr>step_name = ''convert_video_to_audio'',
      caption_start = ''Starting video to audio conversion...'',
      caption_extract = ''Extracting audio from video...'',
      caption_process = ''Processing video conversion...'',
      caption_finalize = ''Finalizing audio extraction...'',
      caption_done = ''Video to audio conversion completed'',
      message_failed = ''Failed to convert video/music file to audio'',
      message_timeout = ''Video conversion timed out (exceeded ''\<rparr>"

definition ffmpeg_cmd :: "settings \<Rightarrow> string \<Rightarrow> string \<Rightarrow> string list" where
  "ffmpeg_cmd s input_path output_path =
     [''ffmpeg'', ''-i'', input_path, ''-vn'', ''-acodec'', ''pcm_s16le'',
      ''-ar'', str_nat (target_sample_rate s), ''-ac'', str_nat (audio_channels s),
      ''-y'', output_path]"

definition error_msg_of :: "completed \<Rightarrow> string" where
  \<comment> \<open>\<^verbatim>\<open>result.stderr or result.stdout or "Unknown ffmpeg error"\<close>\<close>
  "error_msg_of r =
     (if stderr r \<noteq> [] then stderr r
      else if stdout r \<noteq> [] then stdout r
      else ''Unknown ffmpeg error'')"

definition output_missing_or_empty :: "world \<Rightarrow> string \<Rightarrow> bool" where
  \<comment> \<open>\<^verbatim>\<open>not os.path.exists(output_path) or os.path.getsize(output_path) == 0\<close>\<close>
  "output_missing_or_empty w p = (case fs w p of None \<Rightarrow> True | Some c \<Rightarrow> c = [])"

definition transcode_body ::
  "texts \<Rightarrow> host \<Rightarrow> settings \<Rightarrow> string \<Rightarrow> string option \<Rightarrow> callback option \<Rightarrow> string io" where
  \<comment> \<open>The \<^verbatim>\<open>try\<close> block of a transcoder entry point.\<close>
  "transcode_body t h s input_path output_path progress_callback =
     and_then (effect (log_event (Convert (step_name t) input_path))) (\<lambda>_.
     and_then (effect (call_back progress_callback 0.0 (caption_start t))) (\<lambda>_.
     and_then (case output_path of
                 None \<Rightarrow> and_then (create_temp_file h s (Some ''wav'')) (\<lambda>(p, _). ret p)
               | Some p \<Rightarrow> ret p) (\<lambda>out.
     and_then (effect (call_back progress_callback 10.0 (caption_extract t))) (\<lambda>_.
     and_then (effect (call_back progress_callback 30.0 (caption_process t))) (\<lambda>_.
     and_then (run_ffmpeg h (ffmpeg_cmd s input_path out)) (\<lambda>result.
     and_then (effect (call_back progress_callback 80.0 (caption_finalize t))) (\<lambda>_.
     if returncode result \<noteq> 0 then
       raise (AudioProcessingError (message_failed t) (Text (error_msg_of result)) (step_name t))
     else
       (\<lambda>w. if output_missing_or_empty w out then
               raise (AudioProcessingError ''Conversion produced empty or missing output file''
                        (Text ''Output file verification failed'') (step_name t)) w
             else
               and_then (effect (call_back progress_callback 100.0 (caption_done t)))
                 (\<lambda>_. ret out) w))))))))"

definition transcode ::
  "texts \<Rightarrow> host \<Rightarrow> settings \<Rightarrow> string \<Rightarrow> string option \<Rightarrow> callback option \<Rightarrow> string io" where
  \<comment> \<open>The entry point: the \<^verbatim>\<open>try\<close> block under its three \<^verbatim>\<open>except\<close> clauses.\<close>
  "transcode t h s input_path output_path progress_callback =
     try_except (transcode_body t h s input_path output_path progress_callback)
       (\<lambda>e. case e of
          TimeoutExpired \<Rightarrow>
            raise (AudioProcessingError
                     (message_timeout t @ str_nat (ffmpeg_conversion_timeout_seconds s) @ '' seconds)'')
                     (Text ''FFmpeg conversion timeout'') (step_name t))
        | FileNotFoundError \<Rightarrow>
            raise (AudioProcessingError ''FFmpeg not found. Please ensure ffmpeg is installed.''
                     (Text ''FFmpeg executable not found'') (step_name t))
        | _ \<Rightarrow> raise (AudioProcessingError (message_failed t) (Str e) (step_name t)))"

definition convert_audio_file ::
  "host \<Rightarrow> settings \<Rightarrow> string \<Rightarrow> string option \<Rightarrow> callback option \<Rightarrow> string io" where
  "convert_audio_file = transcode audio_texts"

definition convert_video_to_audio ::
  "host \<Rightarrow> settings \<Rightarrow> string \<Rightarrow> string option \<Rightarrow> callback option \<Rightarrow> string io" where
  "convert_video_to_audio = transcode video_texts"

section \<open>The preprocessing pipeline (utils.py)\<close>

definition preprocess_update_progress ::
  "settings \<Rightarrow> callback option \<Rightarrow> real \<Rightarrow> string \<Rightarrow> world \<Rightarrow> world" where
  \<comment> \<open>The nested helper \<^verbatim>\<open>update_progress\<close> of \<^verbatim>\<open>preprocess_audio\<close>.\<close>
  "preprocess_update_progress s progress_callback p m =
     call_back progress_callback (p * (preprocessing_progress_max s / 100.0)) m"

definition load :: "host \<Rightarrow> nat \<Rightarrow> string \<Rightarrow> nat io" where
  \<comment> \<open>\<^verbatim>\<open>librosa.load(file_path, sr=None)\<close>, the \<open>n\<close>-th decode attempt of the run.\<close>
  "load h n file_path =
     and_then (effect (log_event (Decode file_path))) (\<lambda>_. lib (librosa_load h n file_path))"

text \<open>
  The \<^verbatim>\<open>try\<close> block of \<^verbatim>\<open>preprocess_audio\<close> in five parts, cut where the local
  variable \<^verbatim>\<open>converted_file\<close> may change: the \<^verbatim>\<open>except\<close> block reads the value
  the variable has when the exception is raised.
\<close>

definition choose_conversion ::
  "host \<Rightarrow> settings \<Rightarrow> callback option \<Rightarrow> string \<Rightarrow> (string option \<times> string) io" where
  \<comment> \<open>Up to the decision to convert; answers \<^verbatim>\<open>converted_file\<close> and \<^verbatim>\<open>file_path\<close>.
      An exception in this part leaves \<^verbatim>\<open>converted_file\<close> at \<^verbatim>\<open>None\<close>.\<close>
  "choose_conversion h s cb file_path =
     (let up = preprocess_update_progress s cb;
          file_extension = get_file_extension file_path;
          is_video_format = (file_extension \<in> set (formats_requiring_conversion s));
          is_audio_format =
            (file_extension \<in> set [''mp3'', ''wav'', ''m4a'', ''flac'', ''ogg'', ''wma'', ''aac''])
      in
      and_then (effect (up 0.0 ''Validating file...'')) (\<lambda>_.
      and_then (effect (up 2.0 (''Detected file format: '' @ file_extension))) (\<lambda>_.
      if is_video_format then
        and_then (effect (up 5.0 (''Converting '' @ upper file_extension @ '' video to audio...''))) (\<lambda>_.
        and_then (convert_video_to_audio h s file_path None
                    (Some (\<lambda>p m. up (5.0 + p * 0.25) m))) (\<lambda>converted_file.
        and_then (effect (up 30.0 ''Video conversion completed'')) (\<lambda>_.
        ret (Some converted_file, converted_file))))
      else if is_audio_format then
        and_then (effect (up 5.0 ''Validating audio file integrity...'')) (\<lambda>_.
        and_then (validate_audio_file_integrity h s file_path) (\<lambda>(is_valid, error_msg).
        if \<not> is_valid \<or> truthy error_msg then
          and_then (effect (up 10.0 ''Audio file has issues, converting to clean format...'')) (\<lambda>_.
          and_then (convert_audio_file h s file_path None
                      (Some (\<lambda>p m. up (10.0 + p * 0.20) m))) (\<lambda>converted_file.
          and_then (effect (up 30.0 ''Audio conversion completed'')) (\<lambda>_.
          ret (Some converted_file, converted_file))))
        else
          and_then (effect (up 10.0 ''Audio file is valid'')) (\<lambda>_. ret (None, file_path))))
      else ret (None, file_path))))"

definition load_or_rescue ::
  "host \<Rightarrow> settings \<Rightarrow> callback option \<Rightarrow> string option \<Rightarrow> string
     \<Rightarrow> (string option \<times> string) io" where
  \<comment> \<open>The audio information, the first decode and the rescue conversion; answers
      \<^verbatim>\<open>converted_file\<close> and \<^verbatim>\<open>file_path\<close>. An exception in this part leaves
      \<^verbatim>\<open>converted_file\<close> as it was.\<close>
  "load_or_rescue h s cb converted_file file_path =
     (let up = preprocess_update_progress s cb in
      and_then (effect (up 30.0 ''Analyzing audio properties...'')) (\<lambda>_.
      and_then (get_audio_info h file_path) (\<lambda>audio_info.
      and_then (effect (up 32.0 ''Loading audio data...'')) (\<lambda>_.
      try_except
        (and_then (load h 0 file_path) (\<lambda>sr. ret (converted_file, file_path)))
        (\<lambda>e. if \<not> truthy converted_file then
                and_then (effect (up 35.0 ''Audio loading failed, converting file...'')) (\<lambda>_.
                and_then (convert_audio_file h s file_path None
                            (Some (\<lambda>p m. up (35.0 + p * 0.05) m))) (\<lambda>rescued.
                ret (Some rescued, rescued)))
              else ret (converted_file, file_path))))))"

definition cleanup_after_load :: "host \<Rightarrow> string option \<Rightarrow> string \<Rightarrow> (string option) io" where
  \<comment> \<open>The cleanup after the decode; answers \<^verbatim>\<open>converted_file\<close>.\<close>
  "cleanup_after_load h converted_file file_path w =
     (if truthy converted_file \<and> path_exists w (the converted_file)
         \<and> the converted_file \<noteq> file_path
      then try_except (and_then (cleanup_temp_file h (the converted_file)) (\<lambda>_. ret None))
             (\<lambda>e. ret converted_file) w
      else ret converted_file w)"

definition sf_write_file :: "host \<Rightarrow> string \<Rightarrow> unit io" where
  \<comment> \<open>\<^verbatim>\<open>sf.write(output_path, audio, sr, format='WAV', subtype='PCM_16')\<close>\<close>
  "sf_write_file h output_path w =
     (case sf_write h output_path of
        Inl msg \<Rightarrow> (Inl (Exception msg), w)
      | Inr c \<Rightarrow> (Inr (), w\<lparr>fs := (fs w)(output_path \<mapsto> c)\<rparr>))"

definition finish :: "host \<Rightarrow> settings \<Rightarrow> callback option \<Rightarrow> nat \<Rightarrow> nat \<Rightarrow> string io" where
  \<comment> \<open>Resampling, normalisation and the canonical output.\<close>
  "finish h s cb target_sr sr =
     (let up = preprocess_update_progress s cb in
      and_then (effect (up 36.0 ''Processing audio...'')) (\<lambda>_.
      and_then (if sr \<noteq> target_sr then
                  and_then (effect (up 37.0 (''Resampling audio from '' @ str_nat sr @ ''Hz to ''
                                              @ str_nat target_sr @ ''Hz...'')))
                    (\<lambda>_. lib_unit (librosa_resample h))
                else ret ()) (\<lambda>_.
      and_then (effect (up 38.0 ''Normalizing audio levels...'')) (\<lambda>_.
      and_then (lib_unit (librosa_normalize h)) (\<lambda>_.
      and_then (effect (up 39.0 ''Saving preprocessed audio...'')) (\<lambda>_.
      and_then (create_temp_file h s (Some ''wav'')) (\<lambda>(output_path, _).
      and_then (sf_write_file h output_path) (\<lambda>_.
      and_then (effect (up 40.0 ''Audio preprocessing completed, ready for transcription'')) (\<lambda>_.
      ret output_path)))))))))"

definition on_error :: "host \<Rightarrow> string option \<Rightarrow> exc \<Rightarrow> string io" where
  \<comment> \<open>The \<^verbatim>\<open>except\<close> block, given the value of \<^verbatim>\<open>converted_file\<close> at the raise.\<close>
  "on_error h converted_file e =
     and_then (\<lambda>w. if truthy converted_file \<and> path_exists w (the converted_file)
                    then try_except (cleanup_temp_file h (the converted_file)) (\<lambda>e. ret ()) w
                    else ret () w)
       (\<lambda>_. raise (AudioProcessingError ''Failed to preprocess audio'' (Str e) ''preprocess_audio''))"

definition preprocess_audio ::
  "host \<Rightarrow> settings \<Rightarrow> string \<Rightarrow> nat option \<Rightarrow> callback option \<Rightarrow> string io" where
  "preprocess_audio h s file_path target_sr progress_callback w =
     (let target = (case target_sr of None \<Rightarrow> target_sample_rate s | Some t \<Rightarrow> t) in
      case choose_conversion h s progress_callback file_path w of
        (Inl e, w1) \<Rightarrow> on_error h None e w1
      | (Inr (converted1, path1), w1) \<Rightarrow>
      (case load_or_rescue h s progress_callback converted1 path1 w1 of
        (Inl e, w2) \<Rightarrow> on_error h converted1 e w2
      | (Inr (converted2, path2), w2) \<Rightarrow>
      (case load h 1 path2 w2 of
        (Inl e, w3) \<Rightarrow> on_error h converted2 e w3
      | (Inr sr, w3) \<Rightarrow>
      (case cleanup_after_load h converted2 path2 w3 of
        (Inl e, w4) \<Rightarrow> on_error h converted2 e w4
      | (Inr converted3, w4) \<Rightarrow>
      (case finish h s progress_callback target sr w4 of
        (Inl e, w5) \<Rightarrow> on_error h converted3 e w5
      | (Inr output_path, w5) \<Rightarrow> (Inr output_path, w5))))))"

section \<open>File validation (utils.py)\<close>

text \<open>The dictionary of \<^verbatim>\<open>validate_audio_file\<close>, without \<^verbatim>\<open>file_size_mb\<close>.\<close>

record file_info =
  valid :: bool
  format :: "string option"
  file_size :: nat
  info_duration_opt :: "real option"
  info_sample_rate_opt :: "nat option"

definition validate_audio_file :: "host \<Rightarrow> settings \<Rightarrow> string \<Rightarrow> file_info io" where
  "validate_audio_file h s file_path =
     try_except
       (\<lambda>w. if \<not> path_exists w file_path then
               raise (FileSystemError ''File does not exist'' None (Some file_path) None) w
             else
               and_then (getsize file_path) (\<lambda>size.
               if \<not> validate_file_size s (int size) then
                 raise (FileTooLarge size (max_file_size_bytes s))
               else
                 and_then (detect_audio_format h file_path) (\<lambda>detected_format.
                 let extension = get_file_extension file_path;
                     format_to_check = py_or detected_format extension
                 in
                 if format_to_check = [] \<or> format_to_check \<notin> set (supported_formats s) then
                   raise (InvalidAudioFormat
                            (if format_to_check \<noteq> [] then format_to_check else ''unknown'')
                            (supported_formats s))
                 else if (case detected_format of
                            None \<Rightarrow> False
                          | Some d \<Rightarrow> d \<in> set (formats_requiring_conversion s)) then
                   ret \<lparr>valid = True, format = detected_format, file_size = size,
                        info_duration_opt = None, info_sample_rate_opt = None\<rparr>
                 else
                   try_except
                     (and_then (get_audio_info h file_path) (\<lambda>info.
                      ret \<lparr>valid = True, format = detected_format, file_size = size,
                           info_duration_opt = Some (info_duration info),
                           info_sample_rate_opt = Some (info_sample_rate info)\<rparr>))
                     (\<lambda>e. ret \<lparr>valid = True, format = detected_format, file_size = size,
                               info_duration_opt = None, info_sample_rate_opt = None\<rparr>))) w)
       (\<lambda>e. case e of
          InvalidAudioFormat x1 x2 \<Rightarrow> raise e
        | FileTooLarge x1 x2 \<Rightarrow> raise e
        | FileSystemError x1 x2 x3 x4 \<Rightarrow> raise e
        | _ \<Rightarrow> raise (AudioProcessingError ''Audio file validation failed'' (Str e)
                       ''validate_audio_file''))"

section \<open>The job record (job\_manager.py)\<close>

datatype JobStatus = PENDING | PROCESSING | COMPLETED | FAILED | CANCELLED

record TranscriptionSegment =
  start_time :: real
  end_time :: real
  segment_text :: string
  confidence :: "real option"

record TranscriptionResponse =
  response_text :: string
  language :: "string option"
  duration :: real
  segments :: "TranscriptionSegment list"
  confidence_score :: "real option"
  model_used :: "string option"
  processing_time :: real

text \<open>
  A \<^verbatim>\<open>Job\<close> without its two timestamps and its lock: every method body runs under
  the lock, so a method is one atomic update of the record.
\<close>

record Job =
  job_id :: string
  status :: JobStatus
  progress :: real
  message :: string
  result :: "TranscriptionResponse option"
  error :: "string option"

definition Job_init :: "string \<Rightarrow> Job" where
  "Job_init jid =
     \<lparr>job_id = jid, status = PENDING, progress = 0.0, message = ''Job created'',
      result = None, error = None\<rparr>"

definition update_progress :: "Job \<Rightarrow> real \<Rightarrow> string option \<Rightarrow> Job" where
  "update_progress job p m =
     (let job1 = job\<lparr>progress := max 0.0 (min 100.0 p)\<rparr>
      in if truthy m then job1\<lparr>message := the m\<rparr> else job1)"

definition set_status :: "Job \<Rightarrow> JobStatus \<Rightarrow> string option \<Rightarrow> Job" where
  "set_status job st m =
     (let job1 = job\<lparr>status := st\<rparr>
      in if truthy m then job1\<lparr>message := the m\<rparr> else job1)"

definition set_result :: "Job \<Rightarrow> TranscriptionResponse \<Rightarrow> Job" where
  "set_result job r =
     job\<lparr>result := Some r, status := COMPLETED, progress := 100.0,
         message := ''Transcription completed''\<rparr>"

definition set_error :: "Job \<Rightarrow> string \<Rightarrow> Job" where
  "set_error job e = job\<lparr>error := Some e, status := FAILED, message := e\<rparr>"

text \<open>The mutations a job can undergo, and a job's history as a list of them.\<close>

datatype job_op =
    UpdateProgress real "string option"
  | SetStatus JobStatus "string option"
  | SetResult TranscriptionResponse
  | SetError string

fun apply_job_op :: "Job \<Rightarrow> job_op \<Rightarrow> Job" where
  "apply_job_op job (UpdateProgress p m) = update_progress job p m"
| "apply_job_op job (SetStatus st m) = set_status job st m"
| "apply_job_op job (SetResult r) = set_result job r"
| "apply_job_op job (SetError e) = set_error job e"

definition job_after :: "string \<Rightarrow> job_op list \<Rightarrow> Job" where
  "job_after jid ops = foldl apply_job_op (Job_init jid) ops"

definition in_percent_range :: "real \<Rightarrow> bool" where
  "in_percent_range p = (0 \<le> p \<and> p \<le> 100)"

section \<open>The engine adapter (whisper\_service.py)\<close>

definition transcription_callback ::
  "settings \<Rightarrow> callback option \<Rightarrow> real \<Rightarrow> string \<Rightarrow> world \<Rightarrow> world" where
  \<comment> \<open>The nested callback of \<^verbatim>\<open>transcribe_audio\<close>.\<close>
  "transcription_callback s progress_callback p m =
     (let progress_range = transcription_progress_max s - transcription_progress_min s;
          mapped_progress = transcription_progress_min s + (p * progress_range / 100.0)
      in call_back progress_callback mapped_progress m)"

text \<open>
  The result dictionary that \<^verbatim>\<open>_transcribe_sync\<close> builds: every key is present and
  \<^verbatim>\<open>segments\<close> is a list of dictionaries.
\<close>

record segment_dict =
  seg_start :: real
  seg_end :: real
  seg_text :: string
  avg_logprob :: "real option"
  no_speech_prob :: "real option"

record whisper_result =
  result_text :: string
  result_language :: "string option"
  language_probability :: "real option"
  result_segments :: "segment_dict list"

definition whitespace :: string where
  "whitespace = [CHR '' '', CHR 0x09, CHR 0x0A, CHR 0x0B, CHR 0x0C, CHR 0x0D]"

definition strip :: "string \<Rightarrow> string" where
  "strip s = rstrip_chars whitespace (lstrip_chars whitespace s)"

fun join :: "string \<Rightarrow> string list \<Rightarrow> string" where
  "join sep [] = []"
| "join sep [x] = x"
| "join sep (x # y # ys) = x @ sep @ join sep (y # ys)"

definition round_half_even :: "real \<Rightarrow> int" where
  "round_half_even x =
     (let f = \<lfloor>x\<rfloor>; d = x - of_int f
      in if d < 1 / 2 then f else if 1 / 2 < d then f + 1 else if even f then f else f + 1)"

definition py_round :: "real \<Rightarrow> nat \<Rightarrow> real" where
  \<comment> \<open>\<^verbatim>\<open>round(x, n)\<close> on the idealised value.\<close>
  "py_round x n = of_int (round_half_even (x * 10 ^ n)) / 10 ^ n"

fun logprobs :: "segment_dict list \<Rightarrow> real list" where
  \<comment> \<open>The non-null per-segment log-probabilities, in order.\<close>
  "logprobs [] = []"
| "logprobs (seg # segs) =
     (case avg_logprob seg of None \<Rightarrow> logprobs segs | Some v \<Rightarrow> v # logprobs segs)"

definition mean :: "real list \<Rightarrow> real" where
  "mean xs = sum_list xs / real (length xs)"

definition confidence_of :: "segment_dict list \<Rightarrow> real option" where
  \<comment> \<open>The block that computes \<^verbatim>\<open>confidence_score\<close>.\<close>
  "confidence_of segs =
     (if segs \<noteq> [] then
        (let confidences =
               map (\<lambda>seg. the (avg_logprob seg)) (filter (\<lambda>seg. avg_logprob seg \<noteq> None) segs)
         in if confidences \<noteq> [] then
              (let avg = sum_list confidences / real (length confidences)
               in Some (max 0 (min 1 ((avg + 1) / 2))))
            else None)
      else None)"

definition create_transcription_response ::
  "string option \<Rightarrow> whisper_result option \<Rightarrow> file_info option \<Rightarrow> real
     \<Rightarrow> exc + TranscriptionResponse" where
  \<comment> \<open>\<^verbatim>\<open>_create_transcription_response\<close>; the first argument is \<^verbatim>\<open>self._model_size\<close>.\<close>
  "create_transcription_response model_size whisper_result info time =
     (case whisper_result of
        None \<Rightarrow>
          Inl (TranscriptionFailed ''Transcription result is None''
                 (Text ''whisper_result is None'') ''unknown'')
      | Some r \<Rightarrow>
          (let segs =
                 map (\<lambda>seg. \<lparr>start_time = seg_start seg, end_time = seg_end seg,
                              segment_text = strip (seg_text seg), confidence = None\<rparr>)
                   (result_segments r);
               d = (case info of
                      None \<Rightarrow> 0.0
                    | Some i \<Rightarrow> (case info_duration_opt i of None \<Rightarrow> 0.0 | Some v \<Rightarrow> v));
               final_text = (if result_text r \<noteq> [] then strip (result_text r) else []);
               final_text1 =
                 (if final_text = [] \<and> segs \<noteq> [] then
                    join '' '' (map (\<lambda>seg. strip (segment_text seg))
                                 (filter (\<lambda>seg. segment_text seg \<noteq> []) segs))
                  else final_text)
           in Inr \<lparr>response_text = final_text1, language = result_language r, duration = d,
                   segments = segs, confidence_score = confidence_of (result_segments r),
                   model_used = model_size, processing_time = py_round time 3\<rparr>))"

section \<open>Observations and example runs\<close>

definition progress_values :: "event list \<Rightarrow> real list" where
  \<comment> \<open>The percentages handed to the progress callback, in order of emission.\<close>
  "progress_values tr = concat (map (\<lambda>ev. case ev of Progress p m \<Rightarrow> [p] | _ \<Rightarrow> []) tr)"



definition attempts :: "event list \<Rightarrow> event list" where
  \<comment> \<open>The conversion calls and decode attempts of a trace, in order.\<close>
  "attempts tr =
     filter (\<lambda>ev. case ev of Convert st i \<Rightarrow> True | Decode p \<Rightarrow> True | _ \<Rightarrow> False) tr"

definition chosen_output :: "host \<Rightarrow> settings \<Rightarrow> string option \<Rightarrow> world \<Rightarrow> string" where
  \<comment> \<open>The output path a transcoder call works on: the one it is given, or the scratch
      name it draws.\<close>
  "chosen_output h s output_path w =
     (case output_path of
        Some p \<Rightarrow> p
      | None \<Rightarrow> path_join (upload_dir s) (''whisperrr_'' @ uuid4 h (uuids w) @ ''.wav''))"

definition quiet :: "callback option \<Rightarrow> bool" where
  \<comment> \<open>The callback, if there is one, starts no conversion and no decode of its own.\<close>
  "quiet cb =
     (case cb of
        None \<Rightarrow> True
      | Some f \<Rightarrow> \<forall>p m w. attempts (trace (f p m w)) = attempts (trace w))"

definition keeps :: "'a io \<Rightarrow> bool" where
  \<comment> \<open>The computation adds no conversion and no decode to the trace.\<close>
  "keeps m = (\<forall>w. attempts (trace (snd (m w))) = attempts (trace w))"


definition reworded :: "host \<Rightarrow> string \<Rightarrow> string \<Rightarrow> host" where
  \<comment> \<open>The same host, whose external commands print the given texts instead of their own.\<close>
  "reworded h out err =
     h\<lparr>subprocess_run :=
         (\<lambda>cmd. case subprocess_run h cmd of
                  Inl e \<Rightarrow> Inl e
                | Inr r \<Rightarrow> Inr (r\<lparr>stdout := out, stderr := err\<rparr>))\<rparr>"

definition subprocesses :: "event list \<Rightarrow> nat" where
  \<comment> \<open>How many external commands were started.\<close>
  "subprocesses tr = length (filter (\<lambda>ev. case ev of Subprocess c \<Rightarrow> True | _ \<Rightarrow> False) tr)"

definition disk :: "string \<Rightarrow> string \<Rightarrow> world" where
  \<comment> \<open>A fresh world whose storage holds one file.\<close>
  "disk p c = \<lparr>fs = [p \<mapsto> c], trace = [], uuids = 0\<rparr>"

definition example_settings :: settings where
  \<comment> \<open>A configuration with the sub-ranges 0--40 and 40--100 that the source's comments name.\<close>
  "example_settings =
     \<lparr>supported_formats = [''mp3'', ''wav'', ''m4a'', ''flac'', ''ogg'', ''wma'', ''aac'',
        ''mp4'', ''avi'', ''mov'', ''mkv'', ''flv'', ''webm'', ''wmv'', ''m4v'', ''3gp''],
      formats_requiring_conversion = [''mp4'', ''avi'', ''mov'', ''mkv'', ''flv'', ''webm'',
        ''wmv'', ''m4v'', ''3gp''],
      max_file_size_bytes = 1048576000,
      target_sample_rate = 16000,
      audio_channels = 1,
      upload_dir = ''/tmp/uploads'',
      ffprobe_timeout_seconds = 30,
      ffmpeg_conversion_timeout_seconds = 300,
      preprocessing_progress_max = 40,
      transcription_progress_min = 40,
      transcription_progress_max = 100\<rparr>"

definition good_host :: host where
  \<comment> \<open>A host on which every tool is present and every call succeeds.\<close>
  "good_host =
     \<lparr>subprocess_run = (\<lambda>cmd. Inr \<lparr>returncode = 0, stdout = ''{}'', stderr = []\<rparr>),
      ffmpeg_output = (\<lambda>cmd. Some ''RIFF....WAVEfmt ''),
      json_format_name = (\<lambda>out. Inr []),
      uuid4 = (\<lambda>n. replicate (Suc n) CHR ''u''),
      makedirs = (\<lambda>d. None),
      open_rb = (\<lambda>p. None),
      remove_error = (\<lambda>p. None),
      librosa_get_duration = (\<lambda>p. Inr 5),
      librosa_get_samplerate = (\<lambda>p. Inr 16000),
      librosa_load = (\<lambda>n p. Inr 16000),
      librosa_resample = None,
      librosa_normalize = None,
      sf_write = (\<lambda>p. Inr ''RIFF....WAVEfmt '')\<rparr>"

definition video_run :: "(exc + string) \<times> world" where
  \<comment> \<open>An MP4 upload on the good host: converted, decoded and written out.\<close>
  "video_run =
     preprocess_audio good_host example_settings ''/tmp/in/talk.mp4'' None (Some emit)
       (disk ''/tmp/in/talk.mp4'' ''....ftypisom'')"

definition rescue_host :: host where
  \<comment> \<open>The good host, except that the uploaded WAV file cannot be decoded.\<close>
  "rescue_host =
     good_host\<lparr>librosa_load :=
       (\<lambda>n p. if p = ''/tmp/in/clip.wav'' then Inl ''decode failed'' else Inr 16000)\<rparr>"

definition rescue_run :: "(exc + string) \<times> world" where
  \<comment> \<open>A WAV upload that passes the probe, fails to decode, and is rescued by a conversion.\<close>
  "rescue_run =
     preprocess_audio rescue_host example_settings ''/tmp/in/clip.wav'' None (Some emit)
       (disk ''/tmp/in/clip.wav'' ''RIFF....WAVEfmt '')"

definition plain_run :: "(exc + string) \<times> world" where
  \<comment> \<open>A valid WAV upload on the good host: no conversion at all.\<close>
  "plain_run =
     preprocess_audio good_host example_settings ''/tmp/in/note.wav'' None (Some emit)
       (disk ''/tmp/in/note.wav'' ''RIFF....WAVEfmt '')"

definition timeout_host :: host where
  \<comment> \<open>Every external command times out.\<close>
  "timeout_host = good_host\<lparr>subprocess_run := (\<lambda>cmd. Inl TimeoutExpired)\<rparr>"

definition late_timeout_host :: host where
  \<comment> \<open>The audio-stream probe fails; the container probe times out.\<close>
  "late_timeout_host =
     good_host\<lparr>subprocess_run :=
       (\<lambda>cmd. if cmd = probe_cmd ''/tmp/in/a.mp3''
               then Inr \<lparr>returncode = 1, stdout = [], stderr = ''no audio stream''\<rparr>
               else Inl TimeoutExpired)\<rparr>"

definition bare_host :: host where
  \<comment> \<open>No probe tool and no transcoder on the host.\<close>
  "bare_host = good_host\<lparr>subprocess_run := (\<lambda>cmd. Inl FileNotFoundError)\<rparr>"

definition failing_host :: "string \<Rightarrow> host" where
  \<comment> \<open>Every external command exits with status 1 and the given diagnostic, and the
      transcoder leaves no output.\<close>
  "failing_host diag =
     good_host\<lparr>subprocess_run := (\<lambda>cmd. Inr \<lparr>returncode = 1, stdout = [], stderr = diag\<rparr>),
                ffmpeg_output := (\<lambda>cmd. None)\<rparr>"


definition unreadable_host :: host where
  \<comment> \<open>The good host, except that the decoding library reads no file.\<close>
  "unreadable_host =
     good_host\<lparr>librosa_get_duration := (\<lambda>p. Inl ''Input file is empty''),
                librosa_load := (\<lambda>n p. Inl ''Input file is empty'')\<rparr>"

definition example_result :: whisper_result where
  \<comment> \<open>Three segments, the second without a log-probability.\<close>
  "example_result =
     \<lparr>result_text = ''hello wide world'', result_language = Some ''en'',
      language_probability = Some 0.9,
      result_segments =
        [\<lparr>seg_start = 0, seg_end = 1, seg_text = '' hello'', avg_logprob = Some (- 0.5),
          no_speech_prob = Some 0.1\<rparr>,
         \<lparr>seg_start = 1, seg_end = 2, seg_text = '' wide'', avg_logprob = None,
          no_speech_prob = None\<rparr>,
         \<lparr>seg_start = 2, seg_end = 3, seg_text = '' world'', avg_logprob = Some (- 0.1),
          no_speech_prob = Some 0.2\<rparr>]\<rparr>"

definition unscored_result :: whisper_result where
  \<comment> \<open>Two segments, neither with a log-probability.\<close>
  "unscored_result =
     \<lparr>result_text = ''hello world'', result_language = Some ''en'',
      language_probability = None,
      result_segments =
        [\<lparr>seg_start = 0, seg_end = 1, seg_text = '' hello'', avg_logprob = None,
          no_speech_prob = None\<rparr>,
         \<lparr>seg_start = 1, seg_end = 2, seg_text = '' world'', avg_logprob = None,
          no_speech_prob = None\<rparr>]\<rparr>"

definition example_info :: file_info where
  \<comment> \<open>The dictionary \<^verbatim>\<open>validate_audio_file\<close> returns for a three-second WAV file.\<close>
  "example_info =
     \<lparr>valid = True, format = Some ''wav'', file_size = 96044,
      info_duration_opt = Some 3, info_sample_rate_opt = Some 16000\<rparr>"






fun texts_of_exc :: "exc \<Rightarrow> string list" and texts_of_detail :: "detail \<Rightarrow> string list" where
  \<comment> \<open>Every text an exception carries, at any depth: the texts that any rendering of
      the exception can draw on.\<close>
  "texts_of_exc (AudioProcessingError m d st) = m # st # texts_of_detail d"
| "texts_of_exc (FileSystemError m op fp d) =
     m # (case op of None \<Rightarrow> [] | Some t \<Rightarrow> [t]) @ (case fp of None \<Rightarrow> [] | Some t \<Rightarrow> [t])
       @ (case d of None \<Rightarrow> [] | Some x \<Rightarrow> texts_of_detail x)"
| "texts_of_exc (InvalidAudioFormat f supported) = f # supported"
| "texts_of_exc (FileTooLarge n m) = []"
| "texts_of_exc TimeoutExpired = []"
| "texts_of_exc FileNotFoundError = []"
| "texts_of_exc (TranscriptionFailed m d fp) = m # fp # texts_of_detail d"
| "texts_of_exc (ValueError m) = [m]"
| "texts_of_exc (OSError m) = [m]"
| "texts_of_exc (Exception m) = [m]"
| "texts_of_detail (Text t) = [t]"
| "texts_of_detail (Str e) = texts_of_exc e"

section \<open>Properties of the job record\<close>

lemma update_progress_value: "progress (update_progress job p m) = max 0 (min 100 p)"
  by (simp add: update_progress_def Let_def)

lemma apply_job_op_range:
  "in_percent_range (progress job) \<Longrightarrow> in_percent_range (progress (apply_job_op job x))"
  by (cases x)
     (simp_all add: in_percent_range_def update_progress_value set_status_def
        set_result_def set_error_def Let_def)

lemma foldl_job_range:
  "in_percent_range (progress job) \<Longrightarrow> in_percent_range (progress (foldl apply_job_op job ops))"
  by (induction ops arbitrary: job) (simp_all add: apply_job_op_range)

text \<open>
  Claim C10. A new job has progress 0.0; \<^verbatim>\<open>update_progress\<close> stores the supplied
  value clamped into [0, 100], whatever its sign or size; \<^verbatim>\<open>set_result\<close> stores
  exactly 100.0; and after any sequence of mutations applied to a new job the
  stored progress lies in [0, 100].
\<close>

theorem job_progress_within_bounds:
  "progress (Job_init jid) = 0
   \<and> progress (update_progress job p m) = max 0 (min 100 p)
   \<and> in_percent_range (progress (update_progress job p m))
   \<and> progress (set_result job r) = 100
   \<and> in_percent_range (progress (job_after jid ops))"
proof -
  have "in_percent_range (progress (Job_init jid))"
    by (simp add: in_percent_range_def Job_init_def)
  then have "in_percent_range (progress (job_after jid ops))"
    unfolding job_after_def by (rule foldl_job_range)
  moreover have "in_percent_range (progress (update_progress job p m))"
    by (simp add: in_percent_range_def update_progress_value)
  ultimately show ?thesis
    by (simp add: Job_init_def update_progress_value set_result_def)
qed

section \<open>Evaluation rules\<close>

lemmas io_defs = ret_def raise_def and_then_def try_except_def effect_def lib_def lib_unit_def
  log_event_def emit_def call_back_def path_exists_def getsize_def run_probe_def run_ffmpeg_def

lemmas pipeline_defs = preprocess_audio_def choose_conversion_def load_or_rescue_def
  cleanup_after_load_def finish_def on_error_def load_def sf_write_file_def
  preprocess_update_progress_def convert_audio_file_def convert_video_to_audio_def
  transcode_def transcode_body_def audio_texts_def video_texts_def ffmpeg_cmd_def
  error_msg_of_def output_missing_or_empty_def create_temp_file_def cleanup_temp_file_def
  get_audio_info_def validate_audio_file_integrity_def probe_cmd_def probe_cmd_video_def
  truthy_def path_join_def dirname_def startswith_def rstrip_chars_def

lemmas example_defs = good_host_def example_settings_def disk_def str_nat.simps digit_char_def
  upper_def upper_char_def Let_def

lemma ext_talk: "get_file_extension ''/tmp/in/talk.mp4'' = ''mp4''"
  by code_simp

lemma ext_clip: "get_file_extension ''/tmp/in/clip.wav'' = ''wav''"
  by code_simp

lemma ext_note: "get_file_extension ''/tmp/in/note.wav'' = ''wav''"
  by code_simp

section \<open>The cleanup of converted files\<close>

text \<open>
  Claim C1, at a run that breaks it. An MP4 upload is converted to
  \<^verbatim>\<open>/tmp/uploads/whisperrr_u.wav\<close>, decoded, and the canonical output
  \<^verbatim>\<open>/tmp/uploads/whisperrr_uu.wav\<close> is returned: the run succeeds, and the converted
  file is still on disk afterwards. The cleanup after the decode is guarded by
  \<^verbatim>\<open>converted_file != file_path\<close>, and every conversion assigns
  \<^verbatim>\<open>file_path = converted_file\<close>, so the guard never holds.
\<close>

theorem converted_file_survives_success:
  "fst video_run = Inr ''/tmp/uploads/whisperrr_uu.wav''
   \<and> Convert ''convert_video_to_audio'' ''/tmp/in/talk.mp4'' \<in> set (trace (snd video_run))
   \<and> Subprocess (ffmpeg_cmd example_settings ''/tmp/in/talk.mp4'' ''/tmp/uploads/whisperrr_u.wav'')
        \<in> set (trace (snd video_run))
   \<and> fs (snd video_run) ''/tmp/uploads/whisperrr_u.wav'' = Some ''RIFF....WAVEfmt ''"
  unfolding video_run_def
  by (simp add: io_defs pipeline_defs ext_talk example_defs)

section \<open>The progress of the pipeline\<close>

text \<open>
  Claim C2, at a run that breaks it. A WAV upload passes the integrity probe, its
  first decode fails, the rescue conversion succeeds and the second decode succeeds.
  The rescue conversion reports up to stage value 40 (\<^verbatim>\<open>35.0 + p * 0.05\<close> at
  \<^verbatim>\<open>p = 100\<close>), and the next checkpoint is 36: the emitted percentages go from 16 down
  to 14.4.
\<close>

theorem rescue_progress_decreases:
  "fst rescue_run = Inr ''/tmp/uploads/whisperrr_uu.wav''
   \<and> progress_values (trace (snd rescue_run))
       = [0, 4 / 5, 2, 4, 12, 64 / 5, 14, 14, 71 / 5, 73 / 5, 78 / 5, 16, 72 / 5, 76 / 5, 78 / 5, 16]
   \<and> \<not> sorted (progress_values (trace (snd rescue_run)))"
  unfolding rescue_run_def
  by (simp add: io_defs pipeline_defs ext_clip example_defs rescue_host_def progress_values_def)

text \<open>
  Claim C3, at a run that breaks it. With the preprocessing sub-range 0--40, a valid
  WAV upload is preprocessed without conversion; the last emission of the run, and
  the largest, is 16, not 40: the checkpoints handed to the helper run from 0 to 40,
  and the helper multiplies them by \<^verbatim>\<open>preprocessing_progress_max / 100\<close>.
\<close>

theorem final_preprocessing_emission:
  "fst plain_run = Inr ''/tmp/uploads/whisperrr_u.wav''
   \<and> last (trace (snd plain_run))
       = Progress 16 ''Audio preprocessing completed, ready for transcription''
   \<and> preprocessing_progress_max example_settings = 40
   \<and> Max (set (progress_values (trace (snd plain_run)))) = 16"
  unfolding plain_run_def
  by (simp add: io_defs pipeline_defs ext_note example_defs progress_values_def)

section \<open>The integrity prober\<close>

lemma probe_timeout_first:
  "subprocess_run h (probe_cmd p) = Inl TimeoutExpired \<Longrightarrow>
   fst (validate_audio_file_integrity h s p w) = Inr (False, Some ''File validation timed out'')"
  by (simp add: validate_audio_file_integrity_def try_except_def and_then_def run_probe_def ret_def)

lemma probe_timeout_second:
  "subprocess_run h (probe_cmd p) = Inr r \<Longrightarrow> returncode r \<noteq> 0 \<Longrightarrow>
   subprocess_run h (probe_cmd_video p) = Inl TimeoutExpired \<Longrightarrow>
   fst (validate_audio_file_integrity h s p w) = Inr (False, Some ''File validation timed out'')"
  by (simp add: validate_audio_file_integrity_def try_except_def and_then_def run_probe_def ret_def)

lemma probe_absent_first:
  "subprocess_run h (probe_cmd p) = Inl FileNotFoundError \<Longrightarrow>
   fst (validate_audio_file_integrity h s p w) = Inr (True, None)"
  by (simp add: validate_audio_file_integrity_def try_except_def and_then_def run_probe_def ret_def)

lemma probe_absent_second:
  "subprocess_run h (probe_cmd p) = Inr r \<Longrightarrow> returncode r \<noteq> 0 \<Longrightarrow>
   subprocess_run h (probe_cmd_video p) = Inl FileNotFoundError \<Longrightarrow>
   fst (validate_audio_file_integrity h s p w) = Inr (True, None)"
  by (simp add: validate_audio_file_integrity_def try_except_def and_then_def run_probe_def ret_def)

lemma integrity_never_raises:
  "\<exists>v d. fst (validate_audio_file_integrity h s p w) = Inr (v, d)"
  by (auto simp add: validate_audio_file_integrity_def try_except_def and_then_def run_probe_def
        ret_def split: sum.splits exc.splits prod.splits option.splits)

text \<open>
  Claim C7. When a probe invocation times out (the first one, or the second one
  after the first exited with a nonzero status), \<^verbatim>\<open>validate_audio_file_integrity\<close>
  returns \<^verbatim>\<open>(False, "File validation timed out")\<close>; when the probe tool is absent, so
  that starting it raises \<^verbatim>\<open>FileNotFoundError\<close>, it returns \<^verbatim>\<open>(True, None)\<close>. This
  holds for every path, host and configuration.
\<close>

theorem integrity_timeout_and_missing_tool:
  "(subprocess_run h (probe_cmd p) = Inl TimeoutExpired \<longrightarrow>
      fst (validate_audio_file_integrity h s p w)
        = Inr (False, Some ''File validation timed out''))
   \<and> ((\<exists>r. subprocess_run h (probe_cmd p) = Inr r \<and> returncode r \<noteq> 0)
        \<and> subprocess_run h (probe_cmd_video p) = Inl TimeoutExpired \<longrightarrow>
      fst (validate_audio_file_integrity h s p w)
        = Inr (False, Some ''File validation timed out''))
   \<and> (subprocess_run h (probe_cmd p) = Inl FileNotFoundError \<longrightarrow>
      fst (validate_audio_file_integrity h s p w) = Inr (True, None))
   \<and> ((\<exists>r. subprocess_run h (probe_cmd p) = Inr r \<and> returncode r \<noteq> 0)
        \<and> subprocess_run h (probe_cmd_video p) = Inl FileNotFoundError \<longrightarrow>
      fst (validate_audio_file_integrity h s p w) = Inr (True, None))"
  using probe_timeout_first probe_timeout_second probe_absent_first probe_absent_second
  by blast

theorem integrity_timeout_and_missing_tool_witness:
  "fst (validate_audio_file_integrity timeout_host example_settings ''/tmp/in/a.mp3''
          (disk ''/tmp/in/a.mp3'' ''ID3.''))
     = Inr (False, Some ''File validation timed out'')
   \<and> fst (validate_audio_file_integrity late_timeout_host example_settings ''/tmp/in/a.mp3''
          (disk ''/tmp/in/a.mp3'' ''ID3.''))
     = Inr (False, Some ''File validation timed out'')
   \<and> fst (validate_audio_file_integrity bare_host example_settings ''/tmp/in/a.mp3''
          (disk ''/tmp/in/a.mp3'' ''ID3.''))
     = Inr (True, None)"
  using integrity_timeout_and_missing_tool
          [of timeout_host "''/tmp/in/a.mp3''" example_settings "disk ''/tmp/in/a.mp3'' ''ID3.''"]
        integrity_timeout_and_missing_tool
          [of late_timeout_host "''/tmp/in/a.mp3''" example_settings "disk ''/tmp/in/a.mp3'' ''ID3.''"]
        integrity_timeout_and_missing_tool
          [of bare_host "''/tmp/in/a.mp3''" example_settings "disk ''/tmp/in/a.mp3'' ''ID3.''"]
  by (simp add: timeout_host_def late_timeout_host_def bare_host_def good_host_def
        probe_cmd_def probe_cmd_video_def)

section \<open>The overall confidence\<close>

lemma logprobs_filter:
  "map (\<lambda>seg. the (avg_logprob seg)) (filter (\<lambda>seg. avg_logprob seg \<noteq> None) segs)
     = logprobs segs"
  by (induction segs) (auto split: option.splits)

lemma logprobs_Nil_iff: "logprobs segs = [] \<longleftrightarrow> (\<forall>seg\<in>set segs. avg_logprob seg = None)"
  by (induction segs) (auto split: option.splits)

lemma confidence_of_eq:
  "confidence_of segs =
     (if logprobs segs = [] then None
      else Some (max 0 (min 1 ((mean (logprobs segs) + 1) / 2))))"
proof (cases "segs = []")
  case True
  then show ?thesis by (simp add: confidence_of_def)
next
  case False
  then show ?thesis
    unfolding confidence_of_def Let_def logprobs_filter mean_def by simp
qed

lemma response_confidence:
  "create_transcription_response m (Some r) info t = Inr resp \<Longrightarrow>
   confidence_score resp = confidence_of (result_segments r)"
  by (auto simp: create_transcription_response_def Let_def)

text \<open>
  Claim C9. Every transcription result yields a response, whatever file information
  comes with it. If at least one segment carries a log-probability, the overall
  confidence of the response is the mean of the log-probabilities that are present,
  mapped by \<open>(avg + 1) / 2\<close> and clamped into [0, 1], so it lies in [0, 1]; if no
  segment carries one, the confidence is null.
\<close>

theorem confidence_score_clamped_mean:
  "\<exists>resp. create_transcription_response m (Some r) info t = Inr resp
      \<and> ((\<exists>seg\<in>set (result_segments r). avg_logprob seg \<noteq> None) \<longrightarrow>
            confidence_score resp
              = Some (max 0 (min 1 ((mean (logprobs (result_segments r)) + 1) / 2)))
            \<and> (\<exists>c. confidence_score resp = Some c \<and> 0 \<le> c \<and> c \<le> 1))
      \<and> ((\<forall>seg\<in>set (result_segments r). avg_logprob seg = None) \<longrightarrow>
            confidence_score resp = None)"
proof -
  obtain resp where made: "create_transcription_response m (Some r) info t = Inr resp"
    by (simp add: create_transcription_response_def Let_def)
  from response_confidence[OF made] logprobs_Nil_iff[of "result_segments r"]
  have "((\<exists>seg\<in>set (result_segments r). avg_logprob seg \<noteq> None) \<longrightarrow>
            confidence_score resp
              = Some (max 0 (min 1 ((mean (logprobs (result_segments r)) + 1) / 2)))
            \<and> (\<exists>c. confidence_score resp = Some c \<and> 0 \<le> c \<and> c \<le> 1))
      \<and> ((\<forall>seg\<in>set (result_segments r). avg_logprob seg = None) \<longrightarrow>
            confidence_score resp = None)"
    by (auto simp: confidence_of_eq)
  with made show ?thesis by blast
qed

theorem confidence_score_clamped_mean_witness:
  "(\<exists>resp. create_transcription_response (Some ''base'') (Some example_result)
              (Some example_info) (5 / 4) = Inr resp
          \<and> confidence_score resp = Some (7 / 20))
   \<and> (\<exists>resp. create_transcription_response (Some ''base'') (Some unscored_result)
              (Some example_info) (5 / 4) = Inr resp
          \<and> confidence_score resp = None)"
proof -
  have scored: "\<exists>seg\<in>set (result_segments example_result). avg_logprob seg \<noteq> None"
    by (simp add: example_result_def)
  have clamped: "max 0 (min 1 ((mean (logprobs (result_segments example_result)) + 1) / 2))
                 = (7 / 20 :: real)"
    by (simp add: example_result_def mean_def)
  have unscored: "\<forall>seg\<in>set (result_segments unscored_result). avg_logprob seg = None"
    by (simp add: unscored_result_def)
  from confidence_score_clamped_mean
         [of "Some ''base''" example_result "Some example_info" "5 / 4"] scored clamped
  have first: "\<exists>resp. create_transcription_response (Some ''base'') (Some example_result)
              (Some example_info) (5 / 4) = Inr resp
          \<and> confidence_score resp = Some (7 / 20)"
    by auto
  from confidence_score_clamped_mean
         [of "Some ''base''" unscored_result "Some example_info" "5 / 4"] unscored
  have "\<exists>resp. create_transcription_response (Some ''base'') (Some unscored_result)
              (Some example_info) (5 / 4) = Inr resp
          \<and> confidence_score resp = None"
    by auto
  with first show ?thesis by blast
qed

section \<open>The format sniffer\<close>

lemma detect_probe_total:
  "\<exists>t. detect_probe h p w = (Inr t, log_event (Subprocess (detect_cmd p)) w)"
  by (auto simp: detect_probe_def try_except_def and_then_def run_probe_def ret_def
        split: sum.splits prod.splits)

lemma detect_missing_or_empty:
  "fs w p = None \<or> fs w p = Some [] \<Longrightarrow> detect_audio_format h p w = (Inr None, w)"
  by (auto simp: detect_audio_format_def try_except_def and_then_def ret_def path_exists_def
        getsize_def)

lemma detect_body_some:
  "fst (detect_body h p w) = Inr t \<Longrightarrow> \<exists>tag. t = Some tag"
  using detect_probe_total[of h p w]
  by (auto simp: detect_body_def and_then_def ret_def raise_def read_header_def
        split: sum.splits prod.splits option.splits)

lemma detect_nonempty:
  assumes "fs w p = Some c" "c \<noteq> []"
  shows "detect_audio_format h p w
           = try_except (detect_body h p) (\<lambda>e. ret (Some (get_file_extension p))) w"
  using assms
  by (simp add: detect_audio_format_def try_except_def and_then_def ret_def path_exists_def
        getsize_def)

lemma detect_nonempty_some:
  assumes "fs w p = Some c" "c \<noteq> []"
  shows "\<exists>tag. fst (detect_audio_format h p w) = Inr (Some tag)"
proof (cases "fst (detect_body h p w)")
  case (Inl e)
  then show ?thesis
    unfolding detect_nonempty[OF assms]
    by (cases "detect_body h p w") (simp add: try_except_def ret_def)
next
  case (Inr t)
  then obtain tag where "t = Some tag" using detect_body_some by blast
  with Inr show ?thesis
    unfolding detect_nonempty[OF assms]
    by (cases "detect_body h p w") (simp add: try_except_def ret_def)
qed

lemma detect_never_raises: "\<exists>t. fst (detect_audio_format h p w) = Inr t"
proof (cases "fs w p")
  case None
  then show ?thesis by (simp add: detect_missing_or_empty)
next
  case (Some c)
  show ?thesis
  proof (cases "c = []")
    case True
    with Some show ?thesis by (simp add: detect_missing_or_empty)
  next
    case False
    from detect_nonempty_some[OF Some False] show ?thesis by blast
  qed
qed

lemma detect_no_tag:
  assumes "fs w p = Some c" "c \<noteq> []"
    and "fst (detect_probe h p w) = Inr None"
    and "\<forall>tag. signature_tag (take 16 c) p \<noteq> Inr (Some tag)"
  shows "fst (detect_audio_format h p w) = Inr (Some (get_file_extension p))"
  using assms detect_probe_total[of h p w]
  unfolding detect_nonempty[OF assms(1,2)]
  by (auto simp: try_except_def detect_body_def and_then_def ret_def raise_def read_header_def
        log_event_def split: sum.splits prod.splits option.splits)

text \<open>
  Claim C8, as the code has it. \<^verbatim>\<open>detect_audio_format\<close> never raises. For a missing or
  zero-byte file it returns \<^verbatim>\<open>None\<close> and leaves the world as it was, so no external
  tool has been started. For an existing, non-empty file it always returns a string
  and never \<^verbatim>\<open>None\<close>: when neither the probe nor a signature yields a tag it returns
  the filename extension, which is the empty string when the name has none.
\<close>

theorem sniffer_total:
  "(\<exists>t. fst (detect_audio_format h p w) = Inr t)
   \<and> (fs w p = None \<or> fs w p = Some [] \<longrightarrow> detect_audio_format h p w = (Inr None, w))
   \<and> ((\<exists>c. fs w p = Some c \<and> c \<noteq> []) \<longrightarrow>
        (\<exists>tag. fst (detect_audio_format h p w) = Inr (Some tag)))
   \<and> ((\<exists>c. fs w p = Some c \<and> c \<noteq> []
            \<and> (\<forall>tag. signature_tag (take 16 c) p \<noteq> Inr (Some tag)))
        \<and> fst (detect_probe h p w) = Inr None \<and> get_file_extension p = [] \<longrightarrow>
        fst (detect_audio_format h p w) = Inr (Some []))"
  using detect_never_raises[of h p w] detect_missing_or_empty[of w p h]
    detect_nonempty_some[of w p _ h] detect_no_tag[of w p _ h]
  by (metis (no_types, lifting))

lemma ext_recording: "get_file_extension ''/tmp/in/recording'' = []"
  by code_simp

text \<open>
  Claim C8 as stated fails: for a non-empty file without extension whose probe fails
  and whose bytes match no signature, the sniffer returns the empty string, not
  \<^verbatim>\<open>None\<close>.
\<close>

theorem sniffer_returns_empty_string:
  "fst (detect_audio_format (failing_host ''Invalid data found'') ''/tmp/in/recording''
          (disk ''/tmp/in/recording'' ''plain text, no magic bytes''))
     = Inr (Some [])
   \<and> fst (detect_audio_format (failing_host ''Invalid data found'') ''/tmp/in/recording''
          (disk ''/tmp/in/recording'' ''plain text, no magic bytes''))
     \<noteq> Inr None"
  by (simp add: detect_audio_format_def detect_body_def detect_probe_def detect_cmd_def
        read_header_def signature_tag_def startswith_def slice_def ext_recording
        failing_host_def good_host_def disk_def
        ret_def raise_def and_then_def try_except_def log_event_def path_exists_def getsize_def
        run_probe_def)

theorem sniffer_total_witness:
  "detect_audio_format good_host ''/tmp/in/empty.mp3'' (disk ''/tmp/in/empty.mp3'' [])
     = (Inr None, disk ''/tmp/in/empty.mp3'' [])
   \<and> fst (detect_audio_format (failing_host ''Invalid data found'') ''/tmp/in/recording''
          (disk ''/tmp/in/recording'' ''plain text, no magic bytes''))
     = Inr (Some [])"
proof -
  let ?h = "failing_host ''Invalid data found''"
  let ?p = "''/tmp/in/recording''"
  let ?w = "disk ''/tmp/in/recording'' ''plain text, no magic bytes''"
  have stored: "fs ?w ?p = Some ''plain text, no magic bytes''"
    by (simp add: disk_def)
  have no_signature:
    "\<forall>tag. signature_tag (take 16 ''plain text, no magic bytes'') ?p \<noteq> Inr (Some tag)"
    by (simp add: signature_tag_def startswith_def slice_def)
  have no_probe: "fst (detect_probe ?h ?p ?w) = Inr None"
    by (simp add: detect_probe_def try_except_def and_then_def run_probe_def ret_def
          failing_host_def good_host_def)
  have "fs (disk ''/tmp/in/empty.mp3'' []) ''/tmp/in/empty.mp3'' = Some []"
    by (simp add: disk_def)
  with sniffer_total[of good_host "''/tmp/in/empty.mp3''" "disk ''/tmp/in/empty.mp3'' []"]
  have first: "detect_audio_format good_host ''/tmp/in/empty.mp3'' (disk ''/tmp/in/empty.mp3'' [])
     = (Inr None, disk ''/tmp/in/empty.mp3'' [])"
    by blast
  from sniffer_total[of ?h ?p ?w] stored no_signature no_probe ext_recording
  have "fst (detect_audio_format ?h ?p ?w) = Inr (Some [])"
    by auto
  with first show ?thesis by blast
qed

section \<open>File validation\<close>

lemma get_audio_info_world: "snd (get_audio_info h p w) = w"
  by (auto simp: get_audio_info_def try_except_def and_then_def lib_def getsize_def ret_def
        raise_def split: sum.splits prod.splits option.splits)

lemma validate_zero_byte_rejects:
  assumes "fs w p = Some []" "0 \<le> max_file_size_bytes s"
    and "get_file_extension p = [] \<or> get_file_extension p \<notin> set (supported_formats s)"
  shows "validate_audio_file h s p w
           = (Inl (InvalidAudioFormat
                     (if get_file_extension p \<noteq> [] then get_file_extension p else ''unknown'')
                     (supported_formats s)), w)"
  using assms detect_missing_or_empty[of w p h]
  by (auto simp: validate_audio_file_def try_except_def and_then_def ret_def raise_def
        path_exists_def getsize_def validate_file_size_def py_or_def Let_def)

lemma validate_zero_byte_accepts:
  assumes "fs w p = Some []" "0 \<le> max_file_size_bytes s"
    and "get_file_extension p \<noteq> []" "get_file_extension p \<in> set (supported_formats s)"
  shows "\<exists>info. validate_audio_file h s p w = (Inr info, w) \<and> valid info \<and> format info = None"
proof (cases "get_audio_info h p w")
  case (Pair r w1)
  with get_audio_info_world[of h p w] have w1: "w1 = w" by simp
  show ?thesis
    using assms detect_missing_or_empty[of w p h] Pair w1
    by (cases r)
       (auto simp: validate_audio_file_def try_except_def and_then_def ret_def raise_def
          path_exists_def getsize_def validate_file_size_def py_or_def Let_def)
qed

text \<open>
  Claim C6, as the code has it. For a zero-byte file \<^verbatim>\<open>detect_audio_format\<close> returns
  \<^verbatim>\<open>None\<close> without starting a tool. With a size limit that is not negative,
  \<^verbatim>\<open>validate_audio_file\<close> then falls back on the filename extension: it raises
  \<^verbatim>\<open>InvalidAudioFormat\<close>, with the world untouched, exactly when the extension is
  empty or unsupported, and it accepts the file (\<^verbatim>\<open>valid = True\<close>, no detected format)
  when the extension is a supported one.
\<close>

theorem zero_byte_file:
  assumes "fs w p = Some []"
  shows "detect_audio_format h p w = (Inr None, w)
     \<and> (0 \<le> max_file_size_bytes s
          \<and> (get_file_extension p = [] \<or> get_file_extension p \<notin> set (supported_formats s)) \<longrightarrow>
        validate_audio_file h s p w
          = (Inl (InvalidAudioFormat
                    (if get_file_extension p \<noteq> [] then get_file_extension p else ''unknown'')
                    (supported_formats s)), w))
     \<and> (0 \<le> max_file_size_bytes s
          \<and> get_file_extension p \<noteq> [] \<and> get_file_extension p \<in> set (supported_formats s) \<longrightarrow>
        (\<exists>info. validate_audio_file h s p w = (Inr info, w) \<and> valid info \<and> format info = None))"
  using assms detect_missing_or_empty[of w p h] validate_zero_byte_rejects[of w p s h]
    validate_zero_byte_accepts[of w p s h]
  by blast

lemma ext_empty_mp3: "get_file_extension ''/tmp/in/empty.mp3'' = ''mp3''"
  by code_simp
lemma ext_empty_txt: "get_file_extension ''/tmp/in/empty.txt'' = ''txt''"
  by code_simp

theorem zero_byte_file_witness:
  "validate_audio_file good_host example_settings ''/tmp/in/empty.txt''
       (disk ''/tmp/in/empty.txt'' [])
     = (Inl (InvalidAudioFormat ''txt'' (supported_formats example_settings)),
        disk ''/tmp/in/empty.txt'' [])
   \<and> (\<exists>info. validate_audio_file unreadable_host example_settings ''/tmp/in/empty.mp3''
                 (disk ''/tmp/in/empty.mp3'' [])
               = (Inr info, disk ''/tmp/in/empty.mp3'' [])
             \<and> valid info \<and> format info = None)"
proof -
  have a: "fs (disk ''/tmp/in/empty.txt'' []) ''/tmp/in/empty.txt'' = Some []"
    by (simp add: disk_def)
  have b: "fs (disk ''/tmp/in/empty.mp3'' []) ''/tmp/in/empty.mp3'' = Some []"
    by (simp add: disk_def)
  from zero_byte_file[OF a, of good_host example_settings]
  have first: "validate_audio_file good_host example_settings ''/tmp/in/empty.txt''
       (disk ''/tmp/in/empty.txt'' [])
     = (Inl (InvalidAudioFormat ''txt'' (supported_formats example_settings)),
        disk ''/tmp/in/empty.txt'' [])"
    by (simp add: ext_empty_txt example_settings_def)
  from zero_byte_file[OF b, of unreadable_host example_settings]
  have "\<exists>info. validate_audio_file unreadable_host example_settings ''/tmp/in/empty.mp3''
                 (disk ''/tmp/in/empty.mp3'' [])
               = (Inr info, disk ''/tmp/in/empty.mp3'' [])
             \<and> valid info \<and> format info = None"
    by (simp add: ext_empty_mp3 example_settings_def)
  with first show ?thesis by blast
qed

text \<open>
  Claim C6 as stated fails: a zero-byte file named \<^verbatim>\<open>empty.mp3\<close> passes validation.
\<close>

theorem zero_byte_mp3_is_accepted:
  "validate_audio_file unreadable_host example_settings ''/tmp/in/empty.mp3''
       (disk ''/tmp/in/empty.mp3'' [])
     = (Inr \<lparr>valid = True, format = None, file_size = 0, info_duration_opt = None,
             info_sample_rate_opt = None\<rparr>, disk ''/tmp/in/empty.mp3'' [])"
  by (simp add: validate_audio_file_def detect_audio_format_def get_audio_info_def
        validate_file_size_def py_or_def ext_empty_mp3 unreadable_host_def good_host_def
        example_settings_def disk_def Let_def
        ret_def raise_def and_then_def try_except_def lib_def path_exists_def getsize_def)

section \<open>The transcoder\<close>







lemma reworded_fields [simp]:
  "makedirs (reworded h so se) = makedirs h"
  "uuid4 (reworded h so se) = uuid4 h"
  "ffmpeg_output (reworded h so se) = ffmpeg_output h"
  "subprocess_run h cmd = Inr r \<Longrightarrow>
     subprocess_run (reworded h so se) cmd = Inr (r\<lparr>stdout := so, stderr := se\<rparr>)"
  by (simp_all add: reworded_def)

lemma chosen_output_reworded [simp]:
  "chosen_output (reworded h so se) s outp w = chosen_output h s outp w"
  by (simp add: chosen_output_def split: option.splits)











section \<open>The retry bound of the pipeline\<close>

text \<open>
  The conversions and decode attempts of a run are read off the trace. A progress
  callback that records nothing but progress events leaves them unchanged, so every
  stage of \<^verbatim>\<open>preprocess_audio\<close> can be followed by the attempts it adds.
\<close>

subsection \<open>The attempts of the parts\<close>

lemma attempts_append [simp]: "attempts (xs @ ys) = attempts xs @ attempts ys"
  by (simp add: attempts_def)

lemma attempts_simps [simp]:
  "attempts [] = []"
  "attempts (Progress p m # tr) = attempts tr"
  "attempts (Subprocess c # tr) = attempts tr"
  "attempts (Convert st i # tr) = Convert st i # attempts tr"
  "attempts (Decode f # tr) = Decode f # attempts tr"
  by (simp_all add: attempts_def)


lemma call_back_attempts [simp]:
  "quiet cb \<Longrightarrow> attempts (trace (call_back cb p m w)) = attempts (trace w)"
  by (cases cb) (simp_all add: quiet_def call_back_def)

lemma up_attempts [simp]:
  "quiet cb \<Longrightarrow> attempts (trace (preprocess_update_progress s cb p m w)) = attempts (trace w)"
  by (simp add: preprocess_update_progress_def)



lemma create_temp_file_nonempty:
  "create_temp_file h s sfx w = (Inr (path, name), w1) \<Longrightarrow> path \<noteq> []"
  by (auto simp: create_temp_file_def Let_def path_join_def startswith_def split: option.splits if_splits)














subsection \<open>Computations that add no attempt\<close>

lemma keepsD: "keeps m \<Longrightarrow> attempts (trace (snd (m w))) = attempts (trace w)"
  by (simp add: keeps_def)


lemma keeps_raise: "keeps (raise e)"
  by (simp add: keeps_def raise_def)

lemma keeps_lib: "keeps (lib r)"
  by (simp add: keeps_def lib_def split: sum.splits)





lemma keeps_try_except:
  assumes "keeps m" and "\<And>e. keeps (f e)"
  shows "keeps (try_except m f)"
  unfolding keeps_def
proof
  fix w
  show "attempts (trace (snd (try_except m f w))) = attempts (trace w)"
  proof (cases "m w")
    case (Pair r w1)
    with keepsD[OF assms(1), of w] have w1: "attempts (trace w1) = attempts (trace w)" by simp
    show ?thesis
    proof (cases r)
      case (Inl e)
      with Pair w1 keepsD[OF assms(2), of e w1] show ?thesis by (simp add: try_except_def)
    next
      case (Inr x)
      with Pair w1 show ?thesis by (simp add: try_except_def)
    qed
  qed
qed







subsection \<open>The stages of the pipeline\<close>









subsection \<open>The runs classified by their attempts\<close>







end
